theory Spec2Isabelle
  imports Complex_Main
begin

section \<open>Python exceptions\<close>

text \<open>
  The exceptions the modelled functions can raise or swallow. A fallible call returns
  \<open>py_error + 'a\<close>, with \<open>Inl\<close> for the raised exception.
\<close>

datatype py_error =
    TypeError | KeyError | ValueError | UnboundLocalError | KafkaError | MongoError

section \<open>Retry configuration and exponential backoff (scraper/fault_tolerant_scraper.py)\<close>

text \<open>The constants of class \<open>RetryConfig\<close>.\<close>

definition MAX_RETRIES :: nat where
  "MAX_RETRIES = 3"

definition INITIAL_BACKOFF :: int where
  "INITIAL_BACKOFF = 5"

definition MAX_BACKOFF :: int where
  "MAX_BACKOFF = 300"

definition BACKOFF_MULTIPLIER :: int where
  "BACKOFF_MULTIPLIER = 2"

text \<open>
  The local \<open>delay\<close> of \<open>exponential_backoff\<close>, before the jitter is added: an
  integer, since the three constants and the attempt number are Python ints.
\<close>

definition base_delay :: "nat \<Rightarrow> int" where
  "base_delay attempt = min (INITIAL_BACKOFF * BACKOFF_MULTIPLIER ^ attempt) MAX_BACKOFF"

text \<open>
  \<open>random.uniform(a, b)\<close> is \<open>a + (b - a) * random()\<close>; the sample \<open>u\<close> that
  \<open>random()\<close> draws from \<open>[0, 1)\<close> is a parameter. Floats are idealised as reals.
\<close>

definition uniform :: "real \<Rightarrow> real \<Rightarrow> real \<Rightarrow> real" where
  "uniform a b u = a + (b - a) * u"

definition exponential_backoff :: "real \<Rightarrow> nat \<Rightarrow> real" where
  "exponential_backoff u attempt =
     (let delay = base_delay attempt;
          jitter = uniform 0 (real_of_int delay * 0.1) u
      in real_of_int delay + jitter)"

section \<open>Queue backlog (scraper/url_manager.py)\<close>

text \<open>
  What the Kafka cluster answers to the calls \<open>get_pending_count\<close> makes on its
  consumer, in the order it makes them. A call that raises answers with the exception.
  \<open>partitions_for_topic\<close> answers \<open>None\<close> or the partition ids of the topic;
  \<open>committed\<close> answers \<open>None\<close> for a partition without a committed offset.
\<close>

record broker =
  consumer_init :: "py_error option"
  partitions_for_topic :: "py_error + nat list option"
  assign :: "py_error option"
  end_offsets :: "py_error + (nat \<rightharpoonup> int)"
  committed :: "nat \<Rightarrow> py_error + int option"
  consumer_close :: "py_error option"

text \<open>The loop over \<open>topic_partitions\<close> that adds up \<open>end_offset - committed_offset\<close>.\<close>

fun sum_pending :: "broker \<Rightarrow> (nat \<rightharpoonup> int) \<Rightarrow> nat list \<Rightarrow> int \<Rightarrow> py_error + int" where
  "sum_pending b offs [] pending = Inr pending"
| "sum_pending b offs (tp # tps) pending =
     (case committed b tp of
        Inl e \<Rightarrow> Inl e
      | Inr c \<Rightarrow>
          (let committed_offset = (case c of None \<Rightarrow> 0 | Some n \<Rightarrow> n) in
           case offs tp of
             None \<Rightarrow> Inl KeyError
           | Some end_offset \<Rightarrow> sum_pending b offs tps (pending + (end_offset - committed_offset))))"

text \<open>The body of the \<open>try\<close> block of \<open>get_pending_count\<close>.\<close>

definition pending_query :: "broker \<Rightarrow> py_error + int" where
  "pending_query b =
     (case consumer_init b of
        Some e \<Rightarrow> Inl e
      | None \<Rightarrow>
          (case partitions_for_topic b of
             Inl e \<Rightarrow> Inl e
           | Inr None \<Rightarrow> (case consumer_close b of Some e \<Rightarrow> Inl e | None \<Rightarrow> Inr 0)
           | Inr (Some parts) \<Rightarrow>
               if parts = [] then (case consumer_close b of Some e \<Rightarrow> Inl e | None \<Rightarrow> Inr 0)
               else
                 (case assign b of
                    Some e \<Rightarrow> Inl e
                  | None \<Rightarrow>
                      (case end_offsets b of
                         Inl e \<Rightarrow> Inl e
                       | Inr offs \<Rightarrow>
                           (case sum_pending b offs parts 0 of
                              Inl e \<Rightarrow> Inl e
                            | Inr pending \<Rightarrow>
                                (case consumer_close b of
                                   Some e \<Rightarrow> Inl e
                                 | None \<Rightarrow> Inr pending))))))"

text \<open>\<open>except Exception\<close>: the error is logged and \<open>0\<close> is returned.\<close>

definition get_pending_count :: "broker \<Rightarrow> int" where
  "get_pending_count b = (case pending_query b of Inl e \<Rightarrow> 0 | Inr pending \<Rightarrow> pending)"

section \<open>Progress monitor (orchestrator.py)\<close>

text \<open>
  The dictionary \<open>MongoDBStorage.get_stats_count\<close> returns. When a count raises, the
  method returns the empty dictionary, modelled as \<open>None\<close>.
\<close>

record stats_count =
  raw_data_count :: int
  processed_stats_count :: int
  unique_players :: int
  metadata_count :: int

text \<open>
  What one evaluation of the loop test and, if it passes, one run of the loop body see:
  the clock \<open>time.time()\<close> read by the test, the broker that \<open>get_pending_count\<close>
  queries and the reply of \<open>get_stats_count\<close>. The environment of a call is the list of
  these, one per evaluation of the test; a call that needs more of them than the list holds
  has no result in the model. The dictionaries the orchestrator returns share the key
  \<open>status\<close>.
\<close>

record poll =
  clock :: real
  broker_seen :: broker
  stats_reply :: "stats_count option"

record reply =
  status :: string

record progress = reply +
  elapsed_time :: int
  final_stats :: "stats_count option"

text \<open>Python's \<open>int()\<close> of a float truncates towards zero.\<close>

definition py_int :: "real \<Rightarrow> int" where
  "py_int x = (if 0 \<le> x then \<lfloor>x\<rfloor> else \<lceil>x\<rceil>)"

text \<open>
  The \<open>while\<close> loop of \<open>monitor_job_progress\<close>. The result is the value of the local
  variable \<open>pending\<close> when the loop is left, \<open>None\<close> while it is unbound.
  \<open>stats['processed_stats_count']\<close> raises \<open>KeyError\<close> on the empty dictionary, and
  \<open>time.sleep\<close> raises \<open>ValueError\<close> on a negative interval.
\<close>

fun poll_loop ::
  "real \<Rightarrow> int \<Rightarrow> int \<Rightarrow> int \<Rightarrow> int option \<Rightarrow> poll list \<Rightarrow> (py_error + int option) option"
where
  "poll_loop start_time timeout poll_interval last_count pending [] = None"
| "poll_loop start_time timeout poll_interval last_count pending (p # ps) =
     (if clock p - start_time < real_of_int timeout then
        (let pending' = get_pending_count (broker_seen p) in
         case stats_reply p of
           None \<Rightarrow> Some (Inl KeyError)
         | Some stats \<Rightarrow>
             if pending' = 0 \<and> processed_stats_count stats > last_count
             then Some (Inr (Some pending'))
             else if poll_interval < 0 then Some (Inl ValueError)
             else poll_loop start_time timeout poll_interval
                    (processed_stats_count stats) (Some pending') ps)
      else Some (Inr pending))"

text \<open>
  \<open>monitor_job_progress\<close>, given the clock at entry, the polls, and the reply of the
  final \<open>get_stats_count\<close> and the clock read for \<open>elapsed_time\<close>. Reading the unbound
  \<open>pending\<close> in the returned dictionary raises \<open>UnboundLocalError\<close>.
\<close>

definition monitor_job_progress ::
  "int \<Rightarrow> int \<Rightarrow> real \<Rightarrow> poll list \<Rightarrow> stats_count option \<Rightarrow> real
     \<Rightarrow> (py_error + progress) option"
where
  "monitor_job_progress timeout poll_interval start_time polls stats_at_end end_time =
     (case poll_loop start_time timeout poll_interval 0 None polls of
        None \<Rightarrow> None
      | Some (Inl e) \<Rightarrow> Some (Inl e)
      | Some (Inr None) \<Rightarrow> Some (Inl UnboundLocalError)
      | Some (Inr (Some pending)) \<Rightarrow>
          Some (Inr \<lparr>status = (if pending = 0 then ''completed'' else ''timeout''),
                     elapsed_time = py_int (end_time - start_time),
                     final_stats = stats_at_end\<rparr>))"

text \<open>Example environments: a reachable broker whose only partition is fully consumed, a
  broker that cannot be reached, and polls that see them with a given persisted count.\<close>

definition drained_broker :: broker where
  "drained_broker =
     \<lparr>consumer_init = None, partitions_for_topic = Inr (Some [0]), assign = None,
      end_offsets = Inr [0 \<mapsto> 7], committed = (\<lambda>tp. Inr (Some 7)), consumer_close = None\<rparr>"

definition backlog_broker :: "int \<Rightarrow> broker" where
  "backlog_broker n =
     \<lparr>consumer_init = None, partitions_for_topic = Inr (Some [0]), assign = None,
      end_offsets = Inr [0 \<mapsto> n], committed = (\<lambda>tp. Inr None), consumer_close = None\<rparr>"

definition unreachable_broker :: broker where
  "unreachable_broker =
     \<lparr>consumer_init = Some KafkaError, partitions_for_topic = Inl KafkaError,
      assign = Some KafkaError, end_offsets = Inl KafkaError,
      committed = (\<lambda>tp. Inl KafkaError), consumer_close = Some KafkaError\<rparr>"

definition counts :: "int \<Rightarrow> stats_count" where
  "counts n = \<lparr>raw_data_count = n, processed_stats_count = n, unique_players = n,
               metadata_count = n\<rparr>"

definition poll_at :: "real \<Rightarrow> broker \<Rightarrow> int \<Rightarrow> poll" where
  "poll_at t b n = \<lparr>clock = t, broker_seen = b, stats_reply = Some (counts n)\<rparr>"

text \<open>
  For stating what the monitor returns: \<open>no_completion last_count polls\<close> says that every
  poll of the list got a stats reply and none of them saw the completion condition of the
  loop (backlog zero and the persisted-record count above the previous poll's);
  \<open>prev_count\<close> and \<open>prev_pending\<close> are the values of \<open>last_count\<close> and
  \<open>pending\<close> after these polls.
\<close>

fun no_completion :: "int \<Rightarrow> poll list \<Rightarrow> bool" where
  "no_completion last_count [] = True"
| "no_completion last_count (p # ps) =
     (case stats_reply p of
        None \<Rightarrow> False
      | Some reply \<Rightarrow>
          \<not> (get_pending_count (broker_seen p) = 0 \<and> processed_stats_count reply > last_count)
          \<and> no_completion (processed_stats_count reply) ps)"

fun prev_count :: "int \<Rightarrow> poll list \<Rightarrow> int" where
  "prev_count last_count [] = last_count"
| "prev_count last_count (p # ps) =
     prev_count (case stats_reply p of None \<Rightarrow> last_count
                 | Some reply \<Rightarrow> processed_stats_count reply) ps"

fun prev_pending :: "int option \<Rightarrow> poll list \<Rightarrow> int option" where
  "prev_pending pending [] = pending"
| "prev_pending pending (p # ps) = prev_pending (Some (get_pending_count (broker_seen p))) ps"

section \<open>Normalizer and validation of statistics (processor/normalizer.py)\<close>

text \<open>
  A value of the \<open>stats\<close> dictionary of a normalized record: a number (Python int or
  float, idealised as a real), or the nested dictionary stored under \<open>per_game\<close>.
\<close>

datatype stat_value = Num real | PerGame "(string \<times> real) list"

text \<open>
  The dictionary \<open>normalize_player_stats\<close> returns. A dictionary is an association list
  read with \<open>map_of\<close>; a key that is absent, as every key is in the empty dictionary the
  normalizer returns after an exception, is \<open>None\<close>.
\<close>

record normalized =
  player_name :: "string option"
  stats :: "(string \<times> stat_value) list option"
  stats_raw :: "(string \<times> string) list"
  metadata :: "(string \<times> string option) list"

definition empty_dict :: normalized where
  "empty_dict = \<lparr>player_name = None, stats = None, stats_raw = [], metadata = []\<rparr>"

text \<open>
  Writing a key of a dictionary: the value of a key already present is replaced, a new key
  is added at the end.
\<close>

fun upsert :: "'k \<Rightarrow> 'v \<Rightarrow> ('k \<times> 'v) list \<Rightarrow> ('k \<times> 'v) list" where
  "upsert k v [] = [(k, v)]"
| "upsert k v ((k', v') # rest) = (if k' = k then (k, v) # rest else (k', v') # upsert k v rest)"

text \<open>
  One row of scraped data is a dictionary from column headers to cell texts.
\<close>

type_synonym row = "(string \<times> string) list"

text \<open>
  The functions of the Python library the normalizer calls, as parameters: \<open>str.split\<close>,
  \<open>str.title\<close>, \<open>str.lower\<close>, \<open>float\<close> and \<open>int\<close> of a string (\<open>None\<close> when they
  raise \<open>ValueError\<close>), \<open>round\<close> to a number of digits, and the ISO text of the clock.
\<close>

record pylib =
  str_split :: "string \<Rightarrow> string list"
  str_title :: "string \<Rightarrow> string"
  str_lower :: "string \<Rightarrow> string"
  float_of :: "string \<Rightarrow> real option"
  int_of :: "string \<Rightarrow> int option"
  round_to :: "nat \<Rightarrow> real \<Rightarrow> real"
  isoformat_now :: string

definition STAT_MAPPING :: "(string \<times> string) list" where
  "STAT_MAPPING =
     [(''GP'', ''games_played''), (''MIN'', ''minutes''), (''PTS'', ''points''),
      (''FGM'', ''field_goals_made''), (''FGA'', ''field_goals_attempted''),
      (''FG%'', ''field_goal_percentage''), (''3PM'', ''three_pointers_made''),
      (''3PA'', ''three_pointers_attempted''), (''3P%'', ''three_point_percentage''),
      (''FTM'', ''free_throws_made''), (''FTA'', ''free_throws_attempted''),
      (''FT%'', ''free_throw_percentage''), (''OREB'', ''offensive_rebounds''),
      (''DREB'', ''defensive_rebounds''), (''REB'', ''rebounds''), (''AST'', ''assists''),
      (''STL'', ''steals''), (''BLK'', ''blocks''), (''TOV'', ''turnovers''),
      (''EFG%'', ''effective_field_goal_percentage''), (''TS%'', ''true_shooting_percentage''),
      (''PF'', ''personal_fouls'')]"

text \<open>\<open>sep.join(words)\<close>.\<close>

fun join :: "string \<Rightarrow> string list \<Rightarrow> string" where
  "join sep [] = []"
| "join sep [x] = x"
| "join sep (x # y # rest) = x @ sep @ join sep (y # rest)"

definition normalize_player_name :: "pylib \<Rightarrow> string \<Rightarrow> string" where
  "normalize_player_name lib name =
     (if name = [] then [] else str_title lib (join '' '' (str_split lib name)))"

text \<open>
  \<open>_normalize_stat_value\<close>: \<open>None\<close> for a missing value or one that does not parse, the
  number otherwise (an int or a float, both reals here).
\<close>

definition normalize_stat_value :: "pylib \<Rightarrow> string \<Rightarrow> string \<Rightarrow> real option" where
  "normalize_stat_value lib stat_key raw_value =
     (if raw_value = [] \<or> raw_value = ''-'' \<or> raw_value = ''N/A'' then None
      else
        (let v = filter (\<lambda>c. c \<noteq> CHR '','') raw_value in
         if CHR ''%'' \<in> set stat_key \<or> CHR ''%'' \<in> set v then
           (case float_of lib (filter (\<lambda>c. c \<noteq> CHR ''%'') v) of
              None \<Rightarrow> None
            | Some x \<Rightarrow> Some (round_to lib 1 x))
         else if CHR ''.'' \<in> set v then
           (case float_of lib v of None \<Rightarrow> None | Some x \<Rightarrow> Some (round_to lib 3 x))
         else
           (case int_of lib v of None \<Rightarrow> None | Some n \<Rightarrow> Some (real_of_int n))))"

definition avg_stats :: "string list" where
  "avg_stats =
     [''points'', ''rebounds'', ''assists'', ''steals'', ''blocks'', ''minutes'', ''turnovers'',
      ''field_goals_made'', ''field_goals_attempted'', ''three_pointers_made'',
      ''three_pointers_attempted'', ''free_throws_made'', ''free_throws_attempted'',
      ''offensive_rebounds'', ''defensive_rebounds'']"

text \<open>
  The loop of \<open>_calculate_per_game_stats\<close> over \<open>avg_stats\<close>; dividing a number by a
  dictionary raises \<open>TypeError\<close>.
\<close>

fun per_game_each ::
  "pylib \<Rightarrow> (string \<times> stat_value) list \<Rightarrow> stat_value \<Rightarrow> string list \<Rightarrow> (string \<times> real) list
     \<Rightarrow> py_error + (string \<times> real) list"
where
  "per_game_each lib st games [] per_game = Inr per_game"
| "per_game_each lib st games (stat_key # keys) per_game =
     (case map_of st stat_key of
        None \<Rightarrow> per_game_each lib st games keys per_game
      | Some (PerGame d) \<Rightarrow> per_game_each lib st games keys per_game
      | Some (Num v) \<Rightarrow>
          (case games of
             PerGame d \<Rightarrow> Inl TypeError
           | Num g \<Rightarrow>
               per_game_each lib st games keys (upsert stat_key (round_to lib 2 (v / g)) per_game)))"

definition calculate_per_game_stats ::
  "pylib \<Rightarrow> (string \<times> stat_value) list \<Rightarrow> py_error + (string \<times> real) list"
where
  "calculate_per_game_stats lib st =
     (let games = (case map_of st ''games_played'' of None \<Rightarrow> Num 0 | Some g \<Rightarrow> g) in
      if games = Num 0 then Inr [] else per_game_each lib st games avg_stats [])"

text \<open>
  The loop of \<open>normalize_player_stats\<close> over the items of the row, with the \<open>stats\<close> and
  \<open>stats_raw\<close> dictionaries as accumulators.
\<close>

fun normalize_each ::
  "pylib \<Rightarrow> row \<Rightarrow> (string \<times> stat_value) list \<Rightarrow> row \<Rightarrow> (string \<times> stat_value) list \<times> row"
where
  "normalize_each lib [] st raw = (st, raw)"
| "normalize_each lib ((key, raw_value) # rest) st raw =
     (if key \<in> set [''#'', ''PLAYER'', ''Player'', ''stat_category'', ''source_url'']
      then normalize_each lib rest st raw
      else
        (let raw' = upsert key raw_value raw;
             norm_key = (case map_of STAT_MAPPING key of
                           Some k \<Rightarrow> k
                         | None \<Rightarrow> map (\<lambda>c. if c = CHR '' '' then CHR ''_'' else c)
                                      (str_lower lib key));
             norm_value = normalize_stat_value lib key raw_value
         in case norm_value of
              None \<Rightarrow> normalize_each lib rest st raw'
            | Some v \<Rightarrow> normalize_each lib rest (upsert norm_key (Num v) st) raw'))"

text \<open>
  \<open>normalize_player_stats\<close>: the \<open>try\<close> block, and \<open>except Exception\<close> returning the
  empty dictionary.
\<close>

definition normalize_body ::
  "pylib \<Rightarrow> string \<Rightarrow> row \<Rightarrow> (string \<times> string option) list option \<Rightarrow> py_error + normalized"
where
  "normalize_body lib name row md =
     (let given = (case md of None \<Rightarrow> [] | Some m \<Rightarrow> m);
          base = [(''normalized_at'', Some (isoformat_now lib)),
                  (''season_type'',
                   (case map_of given ''season_type'' of
                      None \<Rightarrow> Some ''Regular Season''
                    | Some v \<Rightarrow> v))];
          md' = fold (\<lambda>(k, v) acc. upsert k v acc)
                  (filter (\<lambda>(k, v). k \<notin> set [''normalized_at'', ''season_type'']) given) base
      in case normalize_each lib row [] [] of
           (st, raw) \<Rightarrow>
             if map_of st ''games_played'' \<noteq> None then
               (case calculate_per_game_stats lib st of
                  Inl e \<Rightarrow> Inl e
                | Inr per_game \<Rightarrow>
                    Inr \<lparr>player_name = Some (normalize_player_name lib name),
                         stats = Some (upsert ''per_game'' (PerGame per_game) st),
                         stats_raw = raw, metadata = md'\<rparr>)
             else
               Inr \<lparr>player_name = Some (normalize_player_name lib name), stats = Some st,
                    stats_raw = raw, metadata = md'\<rparr>)"

definition normalize_player_stats ::
  "pylib \<Rightarrow> string \<Rightarrow> row \<Rightarrow> (string \<times> string option) list option \<Rightarrow> normalized"
where
  "normalize_player_stats lib name row md =
     (case normalize_body lib name row md of Inl e \<Rightarrow> empty_dict | Inr n \<Rightarrow> n)"

text \<open>\<open>validate_stats\<close> and the percentage fields it checks.\<close>

definition percentages :: "string list" where
  "percentages =
     [''field_goal_percentage'', ''three_point_percentage'', ''free_throw_percentage'',
      ''effective_field_goal_percentage'', ''true_shooting_percentage'']"

text \<open>
  The loop over \<open>percentages\<close>. Comparing a dictionary with a number raises
  \<open>TypeError\<close>.
\<close>

fun check_percentages :: "(string \<times> stat_value) list \<Rightarrow> string list \<Rightarrow> py_error + bool" where
  "check_percentages st [] = Inr True"
| "check_percentages st (pct_key # keys) =
     (case map_of st pct_key of
        None \<Rightarrow> check_percentages st keys
      | Some (Num v) \<Rightarrow> if v < 0 \<or> v > 100 then Inr False else check_percentages st keys
      | Some (PerGame d) \<Rightarrow> Inl TypeError)"

text \<open>\<open>validate_stats\<close>: the \<open>try\<close> block, and \<open>except Exception\<close> returning False.\<close>

definition validate_body :: "normalized \<Rightarrow> py_error + bool" where
  "validate_body r =
     (case player_name r of
        None \<Rightarrow> Inr False
      | Some name \<Rightarrow>
          if name = [] then Inr False
          else
            (case stats r of
               None \<Rightarrow> Inr False
             | Some st \<Rightarrow> if st = [] then Inr False else check_percentages st percentages))"

definition validate_stats :: "normalized \<Rightarrow> bool" where
  "validate_stats r = (case validate_body r of Inl e \<Rightarrow> False | Inr ok \<Rightarrow> ok)"


section \<open>Deduplication store (scraper/storage.py)\<close>

text \<open>
  The \<open>raw_data\<close> collection, as the URLs of its documents, and whether the database
  raises on a query.
\<close>

record storage =
  raw_data :: "string list"
  mongo_down :: bool

definition count_documents :: "storage \<Rightarrow> string \<Rightarrow> py_error + nat" where
  "count_documents db url =
     (if mongo_down db then Inl MongoError else Inr (length (filter (\<lambda>u. u = url) (raw_data db))))"

definition url_exists :: "storage \<Rightarrow> string \<Rightarrow> bool" where
  "url_exists db url = (case count_documents db url of Inl e \<Rightarrow> False | Inr n \<Rightarrow> n > 0)"

section \<open>Task submission (scraper/url_manager.py, orchestrator.py)\<close>

text \<open>The task message; \<open>metadata or {}\<close> turns a missing metadata into the empty dictionary.\<close>

record task =
  task_url :: string
  task_metadata :: "(string \<times> string) list"
  task_priority :: int

text \<open>
  The URL manager with its Kafka producer: whether the producer was initialised, the
  messages on the scraping topic (oldest first), the number of \<open>send\<close> calls made so far,
  which of the calls raise (in \<open>send\<close> or in \<open>future.get\<close>), and whether \<open>flush\<close> raises.
\<close>

record url_manager =
  producer :: bool
  scraping_topic :: "task list"
  sends :: nat
  send_error :: "nat \<Rightarrow> py_error option"
  flush_error :: "py_error option"

definition message :: "string \<Rightarrow> (string \<times> string) list option \<Rightarrow> int \<Rightarrow> task" where
  "message url md priority =
     \<lparr>task_url = url, task_metadata = (case md of None \<Rightarrow> [] | Some m \<Rightarrow> m),
      task_priority = priority\<rparr>"

definition submit_url ::
  "url_manager \<Rightarrow> string \<Rightarrow> (string \<times> string) list option \<Rightarrow> int \<Rightarrow> bool \<times> url_manager"
where
  "submit_url km url md priority =
     (if \<not> producer km then (False, km)
      else
        (case send_error km (sends km) of
           Some e \<Rightarrow> (False, km\<lparr>sends := sends km + 1\<rparr>)
         | None \<Rightarrow>
             (True, km\<lparr>sends := sends km + 1,
                        scraping_topic := scraping_topic km @ [message url md priority]\<rparr>)))"

text \<open>The loop of \<open>submit_urls_batch\<close>, with \<open>success_count\<close> as accumulator.\<close>

fun submit_each ::
  "url_manager \<Rightarrow> string list \<Rightarrow> (string \<times> string) list option \<Rightarrow> nat \<Rightarrow> nat \<times> url_manager"
where
  "submit_each km [] md success_count = (success_count, km)"
| "submit_each km (url # urls) md success_count =
     (case submit_url km url md 0 of
        (ok, km') \<Rightarrow> submit_each km' urls md (if ok then success_count + 1 else success_count))"

definition submit_urls_batch ::
  "url_manager \<Rightarrow> string list \<Rightarrow> (string \<times> string) list option
     \<Rightarrow> (py_error + nat) \<times> url_manager"
where
  "submit_urls_batch km urls md =
     (if \<not> producer km then (Inr 0, km)
      else
        (case submit_each km urls md 0 of
           (success_count, km') \<Rightarrow>
             (case flush_error km' of
                Some e \<Rightarrow> (Inl e, km')
              | None \<Rightarrow> (Inr success_count, km'))))"

record submission = reply +
  total_urls :: nat
  skipped :: nat
  submitted :: nat
  new_urls :: "string list option"

text \<open>The filter loop of \<open>submit_scraping_job\<close>: the new URLs in order, and \<open>skipped\<close>.\<close>

fun filter_new :: "storage \<Rightarrow> string list \<Rightarrow> string list \<Rightarrow> nat \<Rightarrow> string list \<times> nat" where
  "filter_new db [] new skipped_count = (new, skipped_count)"
| "filter_new db (url # urls) new skipped_count =
     (if url_exists db url then filter_new db urls new (skipped_count + 1)
      else filter_new db urls (new @ [url]) skipped_count)"

definition submit_scraping_job ::
  "storage \<Rightarrow> url_manager \<Rightarrow> string list \<Rightarrow> (string \<times> string) list option
     \<Rightarrow> (py_error + submission) \<times> url_manager"
where
  "submit_scraping_job db km urls md =
     (case filter_new db urls [] 0 of
        (new, skipped_count) \<Rightarrow>
          if new = [] then
            (Inr \<lparr>status = ''no_new_urls'', total_urls = length urls, skipped = skipped_count,
                   submitted = 0, new_urls = None\<rparr>, km)
          else
            (case submit_urls_batch km new md of
               (Inl e, km') \<Rightarrow> (Inl e, km')
             | (Inr n, km') \<Rightarrow>
                 (Inr \<lparr>status = ''success'', total_urls = length urls, skipped = skipped_count,
                        submitted = n, new_urls = Some new\<rparr>, km')))"

text \<open>Example environments: a store holding one URL, a healthy producer with an empty
  topic, and a URL manager whose producer failed to initialise.\<close>

definition store_with :: "string list \<Rightarrow> storage" where
  "store_with urls = \<lparr>raw_data = urls, mongo_down = False\<rparr>"

definition healthy_manager :: url_manager where
  "healthy_manager =
     \<lparr>producer = True, scraping_topic = [], sends = 0, send_error = (\<lambda>n. None),
      flush_error = None\<rparr>"

definition no_producer :: url_manager where
  "no_producer =
     \<lparr>producer = False, scraping_topic = [], sends = 0, send_error = (\<lambda>n. None),
      flush_error = None\<rparr>"

section \<open>Fault-tolerant scraper (scraper/fault_tolerant_scraper.py)\<close>

text \<open>
  The dictionary \<open>run_spider\<close> returns, read with \<open>get\<close>: an absent key is \<open>None\<close>.
\<close>

record spider_result =
  result_status :: "string option"
  html :: "string option"
  result_error :: "string option"

text \<open>
  What the collaborators of one \<open>scrape_with_retry\<close> call do. A call that raises answers
  \<open>Inl\<close> with the text of the exception. \<open>run_spider\<close> and \<open>store_raw_html\<close> are
  indexed by the attempt that calls them; \<open>random_sample\<close> is the value \<open>random()\<close>
  draws for the backoff after an attempt; \<open>insert_one\<close> is the insert into the
  \<open>dead_letter_queue\<close> collection and \<open>dlq_send\<close> the send to the dead-letter topic,
  with the exception they raise, if any; \<open>utcnow\<close> is the clock.
\<close>

record scrape_env =
  run_spider :: "nat \<Rightarrow> string + spider_result"
  store_raw_html :: "nat \<Rightarrow> string + string option"
  random_sample :: "nat \<Rightarrow> real"
  insert_one :: "string option"
  dlq_send :: "string option"
  utcnow :: real

record counters =
  processed :: nat
  succeeded :: nat
  failed :: nat
  retried :: nat
  dead_lettered :: nat

record dead_letter_doc =
  dl_url :: string
  dl_error :: string
  dl_metadata :: "(string \<times> string) list"
  dl_worker_id :: string
  failed_at :: real
  retry_count :: nat
  dl_status :: string

text \<open>
  The worker and what it has done to the outside: its statistics, the URLs it has passed to
  \<open>run_spider\<close> (one entry per call), the delays it has slept, the documents of the
  \<open>dead_letter_queue\<close> collection and the messages (URL and error) on the dead-letter
  topic.
\<close>

record scraper =
  worker_id :: string
  worker_stats :: counters
  fetch_log :: "string list"
  slept :: "real list"
  dead_letter_queue :: "dead_letter_doc list"
  dlq_topic :: "(string \<times> string) list"




definition send_to_dead_letter_queue ::
  "scrape_env \<Rightarrow> scraper \<Rightarrow> string \<Rightarrow> string \<Rightarrow> (string \<times> string) list \<Rightarrow> scraper"
where
  "send_to_dead_letter_queue env w url error md =
     (let dead_letter_doc =
            \<lparr>dl_url = url, dl_error = error, dl_metadata = md, dl_worker_id = worker_id w,
             failed_at = utcnow env, retry_count = MAX_RETRIES, dl_status = ''dead_letter''\<rparr>
      in case insert_one env of
           Some e \<Rightarrow> w
         | None \<Rightarrow>
             (let w' = w\<lparr>dead_letter_queue := dead_letter_queue w @ [dead_letter_doc]\<rparr>
              in case dlq_send env of
                   Some e \<Rightarrow> w'
                 | None \<Rightarrow> w'\<lparr>dlq_topic := dlq_topic w' @ [(url, error)]\<rparr>))"







section \<open>Processor worker (processor/kafka_processor_worker.py)\<close>

text \<open>
  The player records handed to the embedder, and the embedded players it returns.
\<close>

record embed_input =
  input_name :: string
  input_stats :: "(string \<times> stat_value) list"
  input_metadata :: "(string \<times> string option) list"

record embedded =
  embedded_name :: string
  embedded_text :: string
  embedded_metadata :: "(string \<times> string option) list"
  embedding :: "real list"

text \<open>
  The collaborators of one \<open>process_scraped_data\<close> call. A call that raises answers
  \<open>Inl\<close> with the text of the exception (\<open>Some\<close> of it where the call returns nothing).
  \<open>find_one\<close> answers the \<open>html_content\<close> of the raw document of a URL, or \<open>None\<close>
  when there is none; \<open>decode\<close> stands for \<open>json.loads\<close>, with the HTML parser as
  fallback, followed by \<open>get('data', [])\<close>; \<open>library\<close> is the Python library
  the normalizer calls; \<open>update_one\<close> is the upsert into \<open>processed_stats\<close>, by player name;
  \<open>embed_players_batch\<close> is the embedder and \<open>collection_add\<close> the insert into the
  vector store.
\<close>

record processor_env =
  find_one :: "string option \<Rightarrow> string + string option"
  decode :: "string \<Rightarrow> string + row list"
  library :: pylib
  update_one :: "string \<Rightarrow> string option"
  embed_players_batch :: "embed_input list \<Rightarrow> string + embedded list"
  collection_add :: "string option"

text \<open>
  The worker with the stores it writes: the \<open>processed_stats\<close> collection, keyed by player
  name and season type, and the ids in the vector store.
\<close>

record processor =
  processor_id :: string
  processed_data :: "((string \<times> string) \<times> (string \<times> stat_value) list) list"
  vector_ids :: "string list"

text \<open>
  \<open>store_processed_stats\<close>: an exception of the upsert is logged and swallowed. The
  caller ignores the returned id, which is left out.
\<close>

definition store_processed_stats ::
  "processor_env \<Rightarrow> processor \<Rightarrow> string \<Rightarrow> (string \<times> stat_value) list \<Rightarrow> string \<Rightarrow> processor"
where
  "store_processed_stats env w name st season_type =
     (case update_one env name of
        Some e \<Rightarrow> w
      | None \<Rightarrow> w\<lparr>processed_data := upsert (name, season_type) st (processed_data w)\<rparr>)"

text \<open>\<open>add_embeddings\<close>: an exception of the insert is logged and swallowed.\<close>

definition add_embeddings :: "processor_env \<Rightarrow> processor \<Rightarrow> string list \<Rightarrow> processor" where
  "add_embeddings env w ids =
     (case collection_add env of
        Some e \<Rightarrow> w
      | None \<Rightarrow> w\<lparr>vector_ids := vector_ids w @ ids\<rparr>)"

text \<open>
  The loop over the players, with \<open>players_processed\<close> and \<open>players_embedded\<close> as
  accumulators. Reading a key the normalized record lacks raises \<open>KeyError\<close>.
\<close>

fun process_players ::
  "processor_env \<Rightarrow> string option \<Rightarrow> row list \<Rightarrow> processor \<Rightarrow> nat \<Rightarrow> embed_input list
     \<Rightarrow> (string + nat \<times> embed_input list) \<times> processor"
where
  "process_players env url [] w players_processed players_embedded =
     (Inr (players_processed, players_embedded), w)"
| "process_players env url (player_data # rest) w players_processed players_embedded =
     (let name = (case map_of player_data ''PLAYER'' of None \<Rightarrow> [] | Some v \<Rightarrow> v) in
      if name = [] then process_players env url rest w players_processed players_embedded
      else
        (let normalized =
               normalize_player_stats (library env) name player_data
                 (Some [(''season_type'', Some ''Regular Season''), (''source_url'', url)])
         in if \<not> validate_stats normalized
            then process_players env url rest w players_processed players_embedded
            else
              (case (player_name normalized, stats normalized) of
                 (Some norm_name, Some st) \<Rightarrow>
                   process_players env url rest
                     (store_processed_stats env w norm_name st ''Regular Season'')
                     (players_processed + 1)
                     (players_embedded
                      @ [\<lparr>input_name = norm_name, input_stats = st,
                           input_metadata = metadata normalized\<rparr>])
               | _ \<Rightarrow> (Inl ''KeyError'', w))))"

text \<open>The dictionaries \<open>process_scraped_data\<close> returns, by their \<open>status\<close>.\<close>

datatype outcome =
    Skipped "string option" string string
  | Failed "string option" string string
  | NoData "string option" string
  | Success "string option" nat nat string

fun outcome_status :: "outcome \<Rightarrow> string" where
  "outcome_status (Skipped url reason wid) = ''skipped''"
| "outcome_status (Failed url err wid) = ''failed''"
| "outcome_status (NoData url wid) = ''no_data''"
| "outcome_status (Success url players_processed players_embedded wid) = ''success''"

definition vector_id :: "embedded \<Rightarrow> string" where
  "vector_id p = ''player_'' @ map (\<lambda>c. if c = CHR '' '' then CHR ''_'' else c) (embedded_name p)"

text \<open>
  \<open>process_scraped_data\<close> on a result message, a dictionary read with \<open>get\<close>. What the
  \<open>try\<close> block has written before an exception stays written.
\<close>

definition process_scraped_data ::
  "processor_env \<Rightarrow> processor \<Rightarrow> (string \<rightharpoonup> string) \<Rightarrow> outcome \<times> processor"
where
  "process_scraped_data env w result =
     (let url = result ''url''; result_state = result ''status''; wid = processor_id w in
      if result_state \<noteq> Some ''success'' then (Skipped url ''scraping_failed'' wid, w)
      else
        (case find_one env url of
           Inl e \<Rightarrow> (Failed url e wid, w)
         | Inr None \<Rightarrow> (Failed url ''Raw data not found'' wid, w)
         | Inr (Some html_content) \<Rightarrow>
             (case decode env html_content of
                Inl e \<Rightarrow> (Failed url e wid, w)
              | Inr data \<Rightarrow>
                  if data = [] then (NoData url wid, w)
                  else
                    (case process_players env url data w 0 [] of
                       (Inl e, w') \<Rightarrow> (Failed url e wid, w')
                     | (Inr (players_processed, players_embedded), w') \<Rightarrow>
                         if players_embedded = []
                         then (Success url players_processed 0 wid, w')
                         else
                           (case embed_players_batch env players_embedded of
                              Inl e \<Rightarrow> (Failed url e wid, w')
                            | Inr embedded_players \<Rightarrow>
                                (Success url players_processed (length players_embedded) wid,
                                 if embedded_players = [] then w'
                                 else add_embeddings env w' (map vector_id embedded_players)))))))"

text \<open>Example environment: a library that parses the numbers of the examples and leaves
  names as they are, raw documents that hold one player, whose record is valid, and a
  worker with empty stores.\<close>

definition plain_lib :: pylib where
  "plain_lib =
     \<lparr>str_split = (\<lambda>s. [s]), str_title = (\<lambda>s. s), str_lower = (\<lambda>s. s),
      float_of = (\<lambda>s. if s = ''50.5'' then Some (101 / 2) else if s = ''101'' then Some 101 else None),
      int_of = (\<lambda>s. if s = ''40474'' then Some 40474 else if s = ''1421'' then Some 1421 else None),
      round_to = (\<lambda>n x. x), isoformat_now = ''2024-01-01T00:00:00''\<rparr>"

definition one_player_env :: processor_env where
  "one_player_env =
     \<lparr>find_one = (\<lambda>url. Inr (Some ''{}'')),
      decode = (\<lambda>content. Inr [[(''PLAYER'', ''LeBron James''), (''PTS'', ''40,474'')]]),
      library = plain_lib,
      update_one = (\<lambda>name. None),
      embed_players_batch = (\<lambda>players. Inr []),
      collection_add = None\<rparr>"

definition new_processor :: "string \<Rightarrow> processor" where
  "new_processor wid = \<lparr>processor_id = wid, processed_data = [], vector_ids = []\<rparr>"

section \<open>Properties of the backoff\<close>

lemma base_delay_mono: "a \<le> b \<Longrightarrow> base_delay a \<le> base_delay b"
proof -
  assume "a \<le> b"
  then have "INITIAL_BACKOFF * BACKOFF_MULTIPLIER ^ a \<le> INITIAL_BACKOFF * BACKOFF_MULTIPLIER ^ b"
    by (simp add: INITIAL_BACKOFF_def BACKOFF_MULTIPLIER_def power_increasing)
  then show ?thesis
    unfolding base_delay_def by (intro min.mono order_refl)
qed

lemma base_delay_bounds: "5 \<le> base_delay a \<and> base_delay a \<le> MAX_BACKOFF"
proof -
  have "(1::int) \<le> 2 ^ a"
    by simp
  then show ?thesis
    by (simp add: base_delay_def INITIAL_BACKOFF_def BACKOFF_MULTIPLIER_def MAX_BACKOFF_def)
qed

text \<open>
  C3. With the defaults \<open>MAX_RETRIES = 3\<close>, \<open>INITIAL_BACKOFF = 5\<close>,
  \<open>BACKOFF_MULTIPLIER = 2\<close> and \<open>MAX_BACKOFF = 300\<close>, the base delay
  \<open>min (INITIAL_BACKOFF * MULTIPLIER ^ attempt) MAX_BACKOFF\<close> is non-decreasing in the
  attempt number (for every attempt, so also for \<open>0 .. MAX_RETRIES - 1\<close>) and never exceeds
  \<open>MAX_BACKOFF\<close>, and the returned delay is the base plus a jitter between \<open>0\<close> and
  a tenth of the base, for every sample \<open>u\<close> of \<open>random()\<close> in \<open>[0, 1)\<close>.
\<close>

theorem C3_backoff_monotone_capped_jitter:
  assumes "0 \<le> u" and "u < 1" and "a \<le> b"
  shows "MAX_RETRIES = 3 \<and> INITIAL_BACKOFF = 5 \<and> BACKOFF_MULTIPLIER = 2 \<and> MAX_BACKOFF = 300
       \<and> base_delay a = min (INITIAL_BACKOFF * BACKOFF_MULTIPLIER ^ a) MAX_BACKOFF
       \<and> base_delay a \<le> base_delay b
       \<and> base_delay b \<le> MAX_BACKOFF
       \<and> (\<exists>jitter. exponential_backoff u a = real_of_int (base_delay a) + jitter
             \<and> 0 \<le> jitter \<and> jitter \<le> 0.1 * real_of_int (base_delay a))"
proof -
  let ?d = "real_of_int (base_delay a)"
  have pos: "0 \<le> ?d"
    using base_delay_bounds [of a] by simp
  have eq: "exponential_backoff u a = ?d + ?d * 0.1 * u"
    by (simp add: exponential_backoff_def uniform_def Let_def)
  have lo: "0 \<le> ?d * 0.1 * u"
    using pos assms(1) by simp
  have "?d * 0.1 * u \<le> ?d * 0.1 * 1"
    using pos assms(2) by (intro mult_left_mono) simp_all
  then have hi: "?d * 0.1 * u \<le> 0.1 * ?d"
    by simp
  from eq lo hi have "\<exists>jitter. exponential_backoff u a = ?d + jitter
             \<and> 0 \<le> jitter \<and> jitter \<le> 0.1 * ?d"
    by blast
  then show ?thesis
    using base_delay_mono [OF assms(3)] base_delay_bounds [of b]
    by (simp add: MAX_RETRIES_def INITIAL_BACKOFF_def BACKOFF_MULTIPLIER_def MAX_BACKOFF_def
        base_delay_def)
qed

theorem C3_backoff_witness:
  "base_delay 0 = 5 \<and> base_delay 1 = 10 \<and> base_delay 2 = 20 \<and> base_delay 6 = 300
   \<and> base_delay 1 \<le> base_delay 2 \<and> base_delay 2 \<le> MAX_BACKOFF
   \<and> exponential_backoff (1/2) 1 = 10 + 1/2"
proof -
  have "base_delay 1 \<le> base_delay 2 \<and> base_delay 2 \<le> MAX_BACKOFF"
    using C3_backoff_monotone_capped_jitter [of "1/2" 1 2] by simp
  then show ?thesis
    by (simp add: base_delay_def exponential_backoff_def uniform_def Let_def
        INITIAL_BACKOFF_def BACKOFF_MULTIPLIER_def MAX_BACKOFF_def)
qed

section \<open>Properties of the backlog query and the progress monitor\<close>

lemma get_pending_count_drained: "get_pending_count drained_broker = 0"
  by (simp add: get_pending_count_def pending_query_def drained_broker_def)

lemma get_pending_count_backlog: "get_pending_count (backlog_broker n) = n"
  by (simp add: get_pending_count_def pending_query_def backlog_broker_def)

lemma get_pending_count_unreachable: "get_pending_count unreachable_broker = 0"
  by (simp add: get_pending_count_def pending_query_def unreachable_broker_def)

lemma poll_loop_bound:
  "poll_loop st t iv lc (Some n) ps \<noteq> Some (Inr None)"
  by (induction ps arbitrary: lc n) (auto simp: Let_def split: option.splits)

lemma poll_loop_same_view:
  "list_all2 (\<lambda>p q. clock p = clock q \<and> stats_reply p = stats_reply q
       \<and> get_pending_count (broker_seen p) = get_pending_count (broker_seen q)) ps qs
   \<Longrightarrow> poll_loop st t iv lc pend ps = poll_loop st t iv lc pend qs"
proof (induction ps arbitrary: qs lc pend)
  case Nil
  then show ?case by simp
next
  case (Cons p ps)
  then obtain q qs' where qs: "qs = q # qs'" 
    and pq: "clock p = clock q" "stats_reply p = stats_reply q"
      "get_pending_count (broker_seen p) = get_pending_count (broker_seen q)"
    and rest: "list_all2 (\<lambda>p q. clock p = clock q \<and> stats_reply p = stats_reply q
       \<and> get_pending_count (broker_seen p) = get_pending_count (broker_seen q)) ps qs'"
    by (auto simp: list_all2_Cons1)
  show ?case
    using Cons.IH [OF rest] pq by (simp add: qs Let_def split: option.splits)
qed

lemma poll_loop_prefix:
  "0 \<le> iv \<Longrightarrow> \<forall>q\<in>set pre. clock q - st < real_of_int t \<Longrightarrow> no_completion lc pre
   \<Longrightarrow> poll_loop st t iv lc pend (pre @ rest)
       = poll_loop st t iv (prev_count lc pre) (prev_pending pend pre) rest"
proof (induction pre arbitrary: lc pend)
  case Nil
  then show ?case by simp
next
  case (Cons p pre)
  then show ?case
    by (auto simp: Let_def split: option.splits)
qed


lemma poll_loop_errors:
  "poll_loop st t iv lc pend ps \<noteq> Some (Inl UnboundLocalError)"
  by (induction ps arbitrary: lc pend) (auto simp: Let_def split: option.splits)

text \<open>
  C1, as stated, fails: with a timeout of 10 seconds, three clock readings 0, 5 and 10, a
  backlog of zero and a persisted-record count of zero at every poll, no poll sees the
  count increased, the deadline elapses, and the returned status is \<open>completed\<close>.
\<close>

theorem C1_deadline_completed_counterexample:
  "monitor_job_progress 10 5 0
       [poll_at 0 drained_broker 0, poll_at 5 drained_broker 0, poll_at 10 drained_broker 0]
       (Some (counts 0)) 10
     = Some (Inr \<lparr>status = ''completed'', elapsed_time = 10, final_stats = Some (counts 0)\<rparr>)
   \<and> no_completion 0 [poll_at 0 drained_broker 0, poll_at 5 drained_broker 0]
   \<and> \<not> (clock (poll_at 10 drained_broker 0) - 0 < real_of_int 10)"
  by (simp add: monitor_job_progress_def poll_at_def get_pending_count_drained counts_def
      py_int_def)

text \<open>
  C1, amended. Let the polls \<open>pre\<close> run before the deadline without seeing the completion
  condition, and let \<open>p\<close> be the next poll before the deadline. If \<open>p\<close> sees a backlog
  of zero and the persisted-record count above the previous poll's, the call returns
  \<open>completed\<close>. If it does not and the deadline has elapsed at the next loop test, the
  returned status is decided by the backlog \<open>p\<close> saw alone: \<open>completed\<close> when it is
  zero, \<open>timeout\<close> otherwise.
\<close>

theorem C1_status_by_last_backlog:
  assumes "0 \<le> poll_interval"
    and "\<forall>q\<in>set pre. clock q - start_time < real_of_int timeout"
    and "no_completion 0 pre"
    and "clock p - start_time < real_of_int timeout"
    and "stats_reply p = Some reply"
  shows "(get_pending_count (broker_seen p) = 0 \<and> processed_stats_count reply > prev_count 0 pre
          \<longrightarrow> monitor_job_progress timeout poll_interval start_time (pre @ p # rest) fs et
              = Some (Inr \<lparr>status = ''completed'', elapsed_time = py_int (et - start_time),
                           final_stats = fs\<rparr>))
       \<and> (\<not> (get_pending_count (broker_seen p) = 0
               \<and> processed_stats_count reply > prev_count 0 pre)
          \<and> \<not> clock d - start_time < real_of_int timeout
          \<longrightarrow> monitor_job_progress timeout poll_interval start_time (pre @ p # d # rest) fs et
              = Some (Inr \<lparr>status = (if get_pending_count (broker_seen p) = 0
                                     then ''completed'' else ''timeout''),
                           elapsed_time = py_int (et - start_time), final_stats = fs\<rparr>))"
proof -
  have pre: "poll_loop start_time timeout poll_interval 0 None (pre @ xs)
      = poll_loop start_time timeout poll_interval (prev_count 0 pre) (prev_pending None pre) xs"
    for xs
    using assms(1-3) by (rule poll_loop_prefix)
  show ?thesis
    using assms(1,4,5)
    by (simp add: monitor_job_progress_def pre Let_def)
qed

theorem C1_status_by_last_backlog_witness:
  "monitor_job_progress 20 5 0
       [poll_at 0 (backlog_broker 2) 0, poll_at 5 drained_broker 3] None 6
     = Some (Inr \<lparr>status = ''completed'', elapsed_time = 6, final_stats = None\<rparr>)
   \<and> monitor_job_progress 10 5 0
       [poll_at 0 (backlog_broker 2) 0, poll_at 5 (backlog_broker 1) 1, poll_at 10 drained_broker 2]
       None 10
     = Some (Inr \<lparr>status = ''timeout'', elapsed_time = 10, final_stats = None\<rparr>)"
proof -
  have a: "(0::int) \<le> 5" by simp
  have b: "\<forall>q\<in>set [poll_at 0 (backlog_broker 2) 0]. clock q - 0 < real_of_int 20"
    by (simp add: poll_at_def)
  have b': "\<forall>q\<in>set [poll_at 0 (backlog_broker 2) 0]. clock q - 0 < real_of_int 10"
    by (simp add: poll_at_def)
  have c: "no_completion 0 [poll_at 0 (backlog_broker 2) 0]"
    by (simp add: poll_at_def get_pending_count_backlog)
  have d: "clock (poll_at 5 drained_broker 3) - 0 < real_of_int 20"
    by (simp add: poll_at_def)
  have d': "clock (poll_at 5 (backlog_broker 1) 1) - 0 < real_of_int 10"
    by (simp add: poll_at_def)
  have e: "stats_reply (poll_at 5 drained_broker 3) = Some (counts 3)"
    by (simp add: poll_at_def)
  have e': "stats_reply (poll_at 5 (backlog_broker 1) 1) = Some (counts 1)"
    by (simp add: poll_at_def)
  show ?thesis
    using C1_status_by_last_backlog [OF a b c d e, where rest = "[]" and fs = None and et = 6]
      C1_status_by_last_backlog [OF a b' c d' e', where d = "poll_at 10 drained_broker 2"
        and rest = "[]" and fs = None and et = 10]
    by (simp add: poll_at_def get_pending_count_backlog get_pending_count_drained counts_def
        py_int_def)
qed

text \<open>
  C8. When any call of the backlog query raises, \<open>get_pending_count\<close> returns \<open>0\<close>,
  the value it returns for a reachable broker with nothing pending; and the progress
  monitor returns the same result whether a poll saw the failing broker or the drained one.
\<close>

theorem C8_unreachable_reads_as_empty:
  assumes "pending_query b = Inl e"
  shows "get_pending_count b = 0
     \<and> get_pending_count b = get_pending_count drained_broker
     \<and> monitor_job_progress timeout iv st (pre @ p\<lparr>broker_seen := b\<rparr> # post) fs et
       = monitor_job_progress timeout iv st (pre @ p\<lparr>broker_seen := drained_broker\<rparr> # post) fs et"
proof -
  have zero: "get_pending_count b = 0"
    using assms by (simp add: get_pending_count_def)
  have "list_all2 (\<lambda>p q. clock p = clock q \<and> stats_reply p = stats_reply q
       \<and> get_pending_count (broker_seen p) = get_pending_count (broker_seen q))
       (pre @ p\<lparr>broker_seen := b\<rparr> # post) (pre @ p\<lparr>broker_seen := drained_broker\<rparr> # post)"
    by (simp add: list_all2_appendI list_all2_refl zero get_pending_count_drained)
  then have "poll_loop st timeout iv 0 None (pre @ p\<lparr>broker_seen := b\<rparr> # post)
      = poll_loop st timeout iv 0 None (pre @ p\<lparr>broker_seen := drained_broker\<rparr> # post)"
    by (rule poll_loop_same_view)
  then show ?thesis
    by (simp add: zero get_pending_count_drained monitor_job_progress_def)
qed

theorem C8_unreachable_reads_as_empty_witness:
  "pending_query unreachable_broker = Inl KafkaError
   \<and> get_pending_count unreachable_broker = 0
   \<and> monitor_job_progress 10 5 0 [poll_at 0 unreachable_broker 2] None 1
     = Some (Inr \<lparr>status = ''completed'', elapsed_time = 1, final_stats = None\<rparr>)"
proof -
  have q: "pending_query unreachable_broker = Inl KafkaError"
    by (simp add: pending_query_def unreachable_broker_def)
  show ?thesis
    using C8_unreachable_reads_as_empty [OF q, where timeout = 10 and iv = 5 and st = 0
        and pre = "[]" and p = "poll_at 0 unreachable_broker 2" and post = "[]" and fs = None
        and et = 1]
    by (simp add: q monitor_job_progress_def poll_at_def get_pending_count_drained counts_def
        py_int_def)
qed

text \<open>
  C10. For a timeout of zero or less (the clock not running backwards between entry and the
  first loop test) \<open>monitor_job_progress\<close> raises \<open>UnboundLocalError\<close> instead of
  returning a result; and it raises that error exactly when the first loop test fails, that
  is, when no poll iteration runs.
\<close>

theorem C10_nonpositive_timeout_unbound:
  "(timeout \<le> 0 \<and> start_time \<le> clock p
      \<longrightarrow> monitor_job_progress timeout iv start_time (p # ps) fs et
            = Some (Inl UnboundLocalError))
   \<and> (monitor_job_progress timeout iv start_time (p # ps) fs et = Some (Inl UnboundLocalError)
      \<longleftrightarrow> \<not> clock p - start_time < real_of_int timeout)"
proof -
  have late: "monitor_job_progress timeout iv start_time (p # ps) fs et
      = Some (Inl UnboundLocalError)" if "\<not> clock p - start_time < real_of_int timeout"
    using that by (simp add: monitor_job_progress_def)
  have early: "monitor_job_progress timeout iv start_time (p # ps) fs et
      \<noteq> Some (Inl UnboundLocalError)" if "clock p - start_time < real_of_int timeout"
    using that poll_loop_bound [of start_time timeout iv _ _ ps]
      poll_loop_errors [of start_time timeout iv _ _ ps]
    by (auto simp: monitor_job_progress_def Let_def split: option.splits sum.splits)
  have "\<not> clock p - start_time < real_of_int timeout" if "timeout \<le> 0" "start_time \<le> clock p"
  proof -
    have "real_of_int timeout \<le> 0" using that(1) by simp
    then show ?thesis using that(2) by linarith
  qed
  then show ?thesis
    using late early by blast
qed

theorem C10_nonpositive_timeout_unbound_witness:
  "monitor_job_progress 0 5 100 [poll_at 100 (backlog_broker 4) 0] (Some (counts 0)) 100
     = Some (Inl UnboundLocalError)
   \<and> monitor_job_progress (- 3) 5 100 [poll_at 101 drained_broker 9] None 101
     = Some (Inl UnboundLocalError)"
  using C10_nonpositive_timeout_unbound [where timeout = 0 and start_time = 100
      and p = "poll_at 100 (backlog_broker 4) 0" and iv = 5 and ps = "[]"
      and fs = "Some (counts 0)" and et = 100]
    C10_nonpositive_timeout_unbound [where timeout = "- 3" and start_time = 100
      and p = "poll_at 101 drained_broker 9" and iv = 5 and ps = "[]" and fs = None
      and et = 101]
  by (simp add: poll_at_def)

section \<open>Properties of the normalizer and the validation\<close>








section \<open>Properties of the job submission\<close>

lemma url_exists_iff: "url_exists db u \<longleftrightarrow> \<not> mongo_down db \<and> u \<in> set (raw_data db)"
proof -
  have "0 < length (filter (\<lambda>v. v = u) (raw_data db)) \<longleftrightarrow> u \<in> set (raw_data db)"
    by (induction "raw_data db") (auto simp: filter_empty_conv)
  then show ?thesis
    by (simp add: url_exists_def count_documents_def)
qed

lemma filter_new_eq:
  "filter_new db urls new k
     = (new @ filter (\<lambda>u. \<not> url_exists db u) urls, k + length (filter (url_exists db) urls))"
  by (induction urls arbitrary: new k) simp_all

lemma submit_each_all_ok:
  "producer km \<Longrightarrow> \<forall>i<length us. send_error km (sends km + i) = None
   \<Longrightarrow> submit_each km us md c
       = (c + length us,
          km\<lparr>sends := sends km + length us,
              scraping_topic := scraping_topic km @ map (\<lambda>u. message u md 0) us\<rparr>)"
proof (induction us arbitrary: km c)
  case Nil
  then show ?case by simp
next
  case (Cons u us)
  let ?km = "km\<lparr>sends := sends km + 1,
                  scraping_topic := scraping_topic km @ [message u md 0]\<rparr>"
  have first: "send_error km (sends km) = None"
    using Cons.prems(2) by force
  have rest: "\<forall>i<length us. send_error ?km (sends ?km + i) = None"
  proof (intro allI impI)
    fix i assume "i < length us"
    then have "send_error km (sends km + Suc i) = None"
      using Cons.prems(2) by force
    then show "send_error ?km (sends ?km + i) = None"
      by simp
  qed
  have "producer ?km"
    using Cons.prems(1) by simp
  from Cons.IH [OF this rest] show ?case
    using Cons.prems(1) first by (simp add: submit_url_def)
qed

lemma submit_each_general:
  "submit_each km us md c = (c', km')
   \<Longrightarrow> \<exists>ok. set ok \<subseteq> set us
          \<and> scraping_topic km' = scraping_topic km @ map (\<lambda>u. message u md 0) ok
          \<and> c' = c + length ok \<and> flush_error km' = flush_error km"
proof (induction us arbitrary: km c)
  case Nil
  then show ?case by simp
next
  case (Cons u us)
  obtain ok1 km1 where step: "submit_url km u md 0 = (ok1, km1)"
    by (cases "submit_url km u md 0")
  with Cons.prems have run: "submit_each km1 us md (if ok1 then c + 1 else c) = (c', km')"
    by simp
  from Cons.IH [OF run] obtain ok where ok: "set ok \<subseteq> set us"
      "scraping_topic km' = scraping_topic km1 @ map (\<lambda>u. message u md 0) ok"
      "c' = (if ok1 then c + 1 else c) + length ok" "flush_error km' = flush_error km1"
    by blast
  show ?case
  proof (cases ok1)
    case True
    with step have "scraping_topic km1 = scraping_topic km @ [message u md 0]"
        "flush_error km1 = flush_error km"
      by (auto simp: submit_url_def split: if_splits option.splits)
    with ok True have "set (u # ok) \<subseteq> set (u # us)
          \<and> scraping_topic km' = scraping_topic km @ map (\<lambda>u. message u md 0) (u # ok)
          \<and> c' = c + length (u # ok) \<and> flush_error km' = flush_error km"
      by auto
    then show ?thesis by blast
  next
    case False
    with step have "scraping_topic km1 = scraping_topic km" "flush_error km1 = flush_error km"
      by (auto simp: submit_url_def split: if_splits option.splits)
    with ok False have "set ok \<subseteq> set (u # us)
          \<and> scraping_topic km' = scraping_topic km @ map (\<lambda>u. message u md 0) ok
          \<and> c' = c + length ok \<and> flush_error km' = flush_error km"
      by auto
    then show ?thesis by blast
  qed
qed

text \<open>
  C5. When the store answers that every URL of the list exists, \<open>submit_scraping_job\<close>
  returns (it does not raise) status \<open>no_new_urls\<close> with \<open>submitted = 0\<close> and
  \<open>skipped\<close> equal to the length of the list, and leaves the URL manager, and so the
  task topic, as it was; so resubmitting a list whose URLs have all been stored yields
  \<open>submitted = 0\<close>.
\<close>

theorem C5_no_new_urls:
  assumes "\<forall>u\<in>set urls. url_exists db u"
  shows "submit_scraping_job db km urls md
     = (Inr \<lparr>status = ''no_new_urls'', total_urls = length urls, skipped = length urls,
              submitted = 0, new_urls = None\<rparr>, km)"
proof -
  have "filter (\<lambda>u. \<not> url_exists db u) urls = []"
    using assms by (simp add: filter_empty_conv)
  moreover have "filter (url_exists db) urls = urls"
    using assms by (simp add: filter_id_conv)
  ultimately show ?thesis
    by (simp add: submit_scraping_job_def filter_new_eq)
qed

theorem C5_no_new_urls_witness:
  "submit_scraping_job (store_with [''a.com/2'', ''a.com/1'']) healthy_manager
       [''a.com/1'', ''a.com/2''] None
     = (Inr \<lparr>status = ''no_new_urls'', total_urls = 2, skipped = 2, submitted = 0,
              new_urls = None\<rparr>, healthy_manager)"
proof -
  have "\<forall>u\<in>set [''a.com/1'', ''a.com/2'']. url_exists (store_with [''a.com/2'', ''a.com/1'']) u"
    by (simp add: url_exists_iff store_with_def)
  from C5_no_new_urls [OF this] show ?thesis
    by simp
qed

text \<open>
  C4, as stated, fails: submitting \<open>a.com/1\<close> and \<open>a.com/2\<close>, of which only the first
  is in the store, to a URL manager whose producer failed to initialise returns
  \<open>submitted = 0\<close> and \<open>skipped = 1\<close> with status \<open>success\<close>, and \<open>a.com/2\<close> is
  not published.
\<close>

theorem C4_producer_missing_counterexample:
  "url_exists (store_with [''a.com/1'']) ''a.com/1''
   \<and> \<not> url_exists (store_with [''a.com/1'']) ''a.com/2''
   \<and> submit_scraping_job (store_with [''a.com/1'']) no_producer [''a.com/1'', ''a.com/2''] None
     = (Inr \<lparr>status = ''success'', total_urls = 2, skipped = 1, submitted = 0,
              new_urls = Some [''a.com/2'']\<rparr>, no_producer)
   \<and> scraping_topic no_producer = []"
  by (simp add: url_exists_iff store_with_def submit_scraping_job_def submit_urls_batch_def
      no_producer_def)

text \<open>
  C4, amended. Every URL the store reports as existing is counted in \<open>skipped\<close>; the
  tasks published are tasks of remaining URLs only, and \<open>submitted\<close> is their number; and
  when the producer is initialised, every send succeeds and the flush does not raise,
  exactly the remaining URLs are published, in order, and \<open>submitted\<close> is their number.
\<close>

theorem C4_skip_existing_publish_rest:
  "(\<forall>r. fst (submit_scraping_job db km urls md) = Inr r
        \<longrightarrow> skipped r = length (filter (url_exists db) urls))
   \<and> (\<exists>ok. set ok \<subseteq> set (filter (\<lambda>u. \<not> url_exists db u) urls)
          \<and> scraping_topic (snd (submit_scraping_job db km urls md))
              = scraping_topic km @ map (\<lambda>u. message u md 0) ok
          \<and> (\<forall>r. fst (submit_scraping_job db km urls md) = Inr r \<longrightarrow> submitted r = length ok))
   \<and> (producer km
        \<and> (\<forall>i<length (filter (\<lambda>u. \<not> url_exists db u) urls). send_error km (sends km + i) = None)
        \<and> flush_error km = None
      \<longrightarrow> scraping_topic (snd (submit_scraping_job db km urls md))
            = scraping_topic km @ map (\<lambda>u. message u md 0) (filter (\<lambda>u. \<not> url_exists db u) urls)
          \<and> (\<exists>r. fst (submit_scraping_job db km urls md) = Inr r
                \<and> submitted r = length (filter (\<lambda>u. \<not> url_exists db u) urls)
                \<and> skipped r = length (filter (url_exists db) urls)))"
proof -
  let ?new = "filter (\<lambda>u. \<not> url_exists db u) urls"
  let ?out = "submit_scraping_job db km urls md"
  have A: "\<forall>r. fst ?out = Inr r \<longrightarrow> skipped r = length (filter (url_exists db) urls)"
    by (auto simp: submit_scraping_job_def filter_new_eq split: prod.splits sum.splits)
  have B: "\<exists>ok. set ok \<subseteq> set ?new
          \<and> scraping_topic (snd ?out) = scraping_topic km @ map (\<lambda>u. message u md 0) ok
          \<and> (\<forall>r. fst ?out = Inr r \<longrightarrow> submitted r = length ok)"
  proof (cases "?new = [] \<or> \<not> producer km")
    case True
    then have "set [] \<subseteq> set ?new
          \<and> scraping_topic (snd ?out) = scraping_topic km @ map (\<lambda>u. message u md 0) []
          \<and> (\<forall>r. fst ?out = Inr r \<longrightarrow> submitted r = length ([]::string list))"
      by (auto simp: submit_scraping_job_def filter_new_eq submit_urls_batch_def)
    then show ?thesis by blast
  next
    case False
    obtain c km' where run: "submit_each km ?new md 0 = (c, km')"
      by (cases "submit_each km ?new md 0")
    from submit_each_general [OF run] obtain ok where ok: "set ok \<subseteq> set ?new"
        "scraping_topic km' = scraping_topic km @ map (\<lambda>u. message u md 0) ok"
        "c = length ok"
      by auto
    have "scraping_topic (snd ?out) = scraping_topic km'
        \<and> (\<forall>r. fst ?out = Inr r \<longrightarrow> submitted r = c)"
      using False run
      by (auto simp: submit_scraping_job_def filter_new_eq submit_urls_batch_def
          split: option.splits)
    with ok show ?thesis by auto
  qed
  have C: "scraping_topic (snd ?out) = scraping_topic km @ map (\<lambda>u. message u md 0) ?new
          \<and> (\<exists>r. fst ?out = Inr r \<and> submitted r = length ?new
                \<and> skipped r = length (filter (url_exists db) urls))"
    if h: "producer km" "\<forall>i<length ?new. send_error km (sends km + i) = None"
      "flush_error km = None"
    using submit_each_all_ok [OF h(1,2), of md 0] h(1,3)
    by (simp add: submit_scraping_job_def filter_new_eq submit_urls_batch_def)
  from A B C show ?thesis by blast
qed

theorem C4_skip_existing_publish_rest_witness:
  "producer healthy_manager \<and> flush_error healthy_manager = None
   \<and> send_error healthy_manager (sends healthy_manager + 0) = None
   \<and> submit_scraping_job (store_with [''a.com/1'']) healthy_manager [''a.com/1'', ''a.com/2''] None
     = (Inr \<lparr>status = ''success'', total_urls = 2, skipped = 1, submitted = 1,
              new_urls = Some [''a.com/2'']\<rparr>,
        healthy_manager\<lparr>sends := 1, scraping_topic := [message ''a.com/2'' None 0]\<rparr>)"
  using C4_skip_existing_publish_rest [of "store_with [''a.com/1'']" healthy_manager
      "[''a.com/1'', ''a.com/2'']" None]
  by (simp add: url_exists_iff store_with_def submit_scraping_job_def submit_urls_batch_def
      submit_url_def healthy_manager_def)

section \<open>Properties of the fault-tolerant scraper\<close>


lemma dead_letter_keeps_fetch_log:
  "fetch_log (send_to_dead_letter_queue env w url err md) = fetch_log w"
  by (simp add: send_to_dead_letter_queue_def Let_def split: option.splits)

lemma dead_letter_queue_after:
  "dead_letter_queue (send_to_dead_letter_queue env w url err md)
     = dead_letter_queue w
       @ (if insert_one env = None
          then [\<lparr>dl_url = url, dl_error = err, dl_metadata = md, dl_worker_id = worker_id w,
                  failed_at = utcnow env, retry_count = 3, dl_status = ''dead_letter''\<rparr>]
          else [])"
  by (simp add: send_to_dead_letter_queue_def Let_def MAX_RETRIES_def split: option.splits)










section \<open>Properties of the processor worker\<close>

text \<open>
  C6. For every result message whose \<open>status\<close> is not \<open>success\<close> (or is missing),
  \<open>process_scraped_data\<close> returns the \<open>skipped\<close> outcome and leaves the processed
  records and the vector store as they were: nothing is read, normalized, validated or
  upserted for it.
\<close>

theorem C6_failed_result_skipped:
  assumes "result ''status'' \<noteq> Some ''success''"
  shows "process_scraped_data env w result
           = (Skipped (result ''url'') ''scraping_failed'' (processor_id w), w)
       \<and> outcome_status (fst (process_scraped_data env w result)) = ''skipped''
       \<and> processed_data (snd (process_scraped_data env w result)) = processed_data w
       \<and> vector_ids (snd (process_scraped_data env w result)) = vector_ids w"
  using assms by (simp add: process_scraped_data_def Let_def)

theorem C6_failed_result_skipped_witness:
  "process_scraped_data one_player_env (new_processor ''p1'')
       [''url'' \<mapsto> ''a.com/1'', ''status'' \<mapsto> ''failed'']
     = (Skipped (Some ''a.com/1'') ''scraping_failed'' ''p1'', new_processor ''p1'')
   \<and> processed_data (snd (process_scraped_data one_player_env (new_processor ''p1'')
       [''url'' \<mapsto> ''a.com/1'', ''status'' \<mapsto> ''failed''])) = []
   \<and> processed_data (snd (process_scraped_data one_player_env (new_processor ''p1'')
       [''url'' \<mapsto> ''a.com/1'', ''status'' \<mapsto> ''success'']))
     = [((''LeBron James'', ''Regular Season''), [(''points'', Num 40474)])]"
proof -
  have status: "[''url'' \<mapsto> ''a.com/1'', ''status'' \<mapsto> ''failed''] ''status'' \<noteq> Some ''success''"
    by simp
  have norm: "normalize_player_stats plain_lib ''LeBron James''
        [(''PLAYER'', ''LeBron James''), (''PTS'', ''40,474'')]
        (Some [(''season_type'', Some ''Regular Season''), (''source_url'', Some ''a.com/1'')])
      = \<lparr>player_name = Some ''LeBron James'', stats = Some [(''points'', Num 40474)],
         stats_raw = [(''PTS'', ''40,474'')],
         metadata = [(''normalized_at'', Some ''2024-01-01T00:00:00''),
                     (''season_type'', Some ''Regular Season''),
                     (''source_url'', Some ''a.com/1'')]\<rparr>"
    by (simp add: normalize_player_stats_def normalize_body_def normalize_player_name_def
        normalize_stat_value_def STAT_MAPPING_def plain_lib_def Let_def)
  have valid: "validate_stats \<lparr>player_name = Some ''LeBron James'',
      stats = Some [(''points'', Num 40474)], stats_raw = [(''PTS'', ''40,474'')],
      metadata = md\<rparr>" for md
    by (simp add: validate_stats_def validate_body_def percentages_def)
  have players: "process_players one_player_env (Some ''a.com/1'')
        [[(''PLAYER'', ''LeBron James''), (''PTS'', ''40,474'')]] (new_processor ''p1'') 0 []
      = (Inr (1, [\<lparr>input_name = ''LeBron James'', input_stats = [(''points'', Num 40474)],
                   input_metadata = [(''normalized_at'', Some ''2024-01-01T00:00:00''),
                     (''season_type'', Some ''Regular Season''),
                     (''source_url'', Some ''a.com/1'')]\<rparr>]),
         (new_processor ''p1'')\<lparr>processed_data :=
            [((''LeBron James'', ''Regular Season''), [(''points'', Num 40474)])]\<rparr>)"
  proof -
    have lib: "library one_player_env = plain_lib" "update_one one_player_env n = None" for n
      by (simp_all add: one_player_env_def)
    show ?thesis
      by (simp add: lib norm valid store_processed_stats_def new_processor_def Let_def)
  qed
  have written: "processed_data (snd (process_scraped_data one_player_env (new_processor ''p1'')
       [''url'' \<mapsto> ''a.com/1'', ''status'' \<mapsto> ''success'']))
     = [((''LeBron James'', ''Regular Season''), [(''points'', Num 40474)])]"
  proof -
    have env: "find_one one_player_env u = Inr (Some ''{}'')"
      "decode one_player_env h = Inr [[(''PLAYER'', ''LeBron James''), (''PTS'', ''40,474'')]]"
      "embed_players_batch one_player_env ps = Inr []" for u h ps
      by (simp_all add: one_player_env_def)
    show ?thesis
      by (simp add: process_scraped_data_def env players Let_def del: process_players.simps)
  qed
  from C6_failed_result_skipped [where result = "[''url'' \<mapsto> ''a.com/1'', ''status'' \<mapsto> ''failed'']"
      and env = one_player_env and w = "new_processor ''p1''", OF status] written
  show ?thesis
    by (simp add: new_processor_def)
qed

end
